theory Spec2Isabelle
  imports Complex_Main
begin

section \<open>Values, errors and outcomes\<close>

text \<open>
  The agents and connections of \<^verbatim>\<open>qnetdes\<close> are Python objects that refer to one
  another; every method mutates objects in place. The model keeps the objects in a
  store indexed by addresses and passes the store through every method.

  Delays are Python floats. They are read here as real numbers: the theorems are about
  which terms are added and multiplied, not about rounding.
\<close>

type_synonym addr = nat

text \<open>The exceptions the modelled code can raise. \<^verbatim>\<open>Exception\<close> carries its message.\<close>

datatype pyerr =
    Exception string
  | TypeError
  | AttributeError
  | KeyError
  | ValueError

text \<open>
  What a call does: it returns a value, raises, or waits on an empty queue
  (\<^verbatim>\<open>Queue.get()\<close> without timeout).
\<close>

datatype 'a outcome = Returns 'a | Raises pyerr | Blocks

text \<open>
  Modelled from the spec: the device class is not part of the repository's sources.
  A device exposes \<^verbatim>\<open>apply(program, payload) -> delay\<close>; it may change the program it is
  given and returns a delay that depends on its inputs only.
\<close>

type_synonym 'p device = "'p \<Rightarrow> int list \<Rightarrow> real \<times> 'p"

text \<open>
  A reference to a list of devices. An agent's two lists are created once in
  \<^verbatim>\<open>Agent.__init__\<close> and only ever appended to, and a connection stores these very list
  objects: they are named by the agent that holds them, so that a later
  \<^verbatim>\<open>add_device\<close> is seen through the connection too. The transit lists belong to the
  connection and are never changed by the code.
\<close>

datatype 'p devices =
    Own "'p device list"
  | SourceDevicesOf addr
  | TargetDevicesOf addr

section \<open>The objects\<close>

record 'p agent =
  name :: string
  time :: real
  qconnections :: "string \<rightharpoonup> addr"
  cconnections :: "string \<rightharpoonup> addr"
  qubits :: "int list"
  program :: addr
  target_devices :: "'p device list"
  source_devices :: "'p device list"

text \<open>The dictionary \<^verbatim>\<open>non_source_devices\<close> that \<^verbatim>\<open>QConnect.put\<close> places on the queue.\<close>

record 'p non_source_devices =
  transit :: "'p devices"
  target :: "'p devices"

text \<open>A queue entry: \<^verbatim>\<open>(qubits, non_source_devices, scaled_source_delay, source_time)\<close>.\<close>

type_synonym 'p qentry = "int list \<times> 'p non_source_devices \<times> real \<times> real"

record 'p qconnect =
  q_source_devices :: "string \<rightharpoonup> 'p devices"
  q_target_devices :: "string \<rightharpoonup> 'p devices"
  q_transit_devices :: "string \<rightharpoonup> 'p devices"
  q_agents :: "string \<rightharpoonup> addr"
  q_queues :: "string \<rightharpoonup> 'p qentry list"

text \<open>A classical queue entry: \<^verbatim>\<open>(cbits, csource_delay)\<close>.\<close>

type_synonym centry = "int list \<times> real"

record cconnect =
  c_agents :: "string \<rightharpoonup> addr"
  c_length :: real
  c_queues :: "string \<rightharpoonup> centry list"

record 'p world =
  agent_at :: "addr \<Rightarrow> 'p agent"
  program_at :: "addr \<Rightarrow> 'p"
  qconnect_at :: "addr \<Rightarrow> 'p qconnect"
  cconnect_at :: "addr \<Rightarrow> cconnect"

definition set_agent :: "addr \<Rightarrow> 'p agent \<Rightarrow> 'p world \<Rightarrow> 'p world" where
  "set_agent a x w = w\<lparr>agent_at := (agent_at w)(a := x)\<rparr>"

definition set_program :: "addr \<Rightarrow> 'p \<Rightarrow> 'p world \<Rightarrow> 'p world" where
  "set_program a x w = w\<lparr>program_at := (program_at w)(a := x)\<rparr>"

definition set_qconnect :: "addr \<Rightarrow> 'p qconnect \<Rightarrow> 'p world \<Rightarrow> 'p world" where
  "set_qconnect a x w = w\<lparr>qconnect_at := (qconnect_at w)(a := x)\<rparr>"

definition set_cconnect :: "addr \<Rightarrow> cconnect \<Rightarrow> 'p world \<Rightarrow> 'p world" where
  "set_cconnect a x w = w\<lparr>cconnect_at := (cconnect_at w)(a := x)\<rparr>"

fun deref :: "'p world \<Rightarrow> 'p devices \<Rightarrow> 'p device list" where
  "deref w (Own ds) = ds"
| "deref w (SourceDevicesOf a) = source_devices (agent_at w a)"
| "deref w (TargetDevicesOf a) = target_devices (agent_at w a)"

text \<open>
  \<^verbatim>\<open>list(set(...))\<close>: Python does not fix the order in which a set is enumerated. The
  model enumerates in ascending order; the theorems below speak of the set of the
  elements, of their number and of the absence of duplicates only.
\<close>

definition list_of_set :: "int set \<Rightarrow> int list" where
  "list_of_set S = sorted_list_of_set S"

section \<open>The constants of connections.py\<close>

definition pulse_length_default :: real where
  "pulse_length_default = 10 * (1 / 10 ^ 12)"

definition signal_speed :: real where
  "signal_speed = 2.998 * 10 ^ 5"

definition fiber_length_default :: real where
  "fiber_length_default = 0.0"

section \<open>Agent\<close>

text \<open>
  \<^verbatim>\<open>Agent.__init__(self, program, qubits=[], name=None)\<close>; \<open>cls\<close> is the name of the
  class of the object, the default of the agent's name.
\<close>

definition Agent_init ::
  "'p world \<Rightarrow> addr \<Rightarrow> string \<Rightarrow> addr \<Rightarrow> int list \<Rightarrow> string option \<Rightarrow> 'p world" where
  "Agent_init w self cls prog qs nm =
     set_agent self
       \<lparr>name = (case nm of Some n \<Rightarrow> n | None \<Rightarrow> cls),
        time = 0.0,
        qconnections = Map.empty,
        cconnections = Map.empty,
        qubits = qs,
        program = prog,
        target_devices = [],
        source_devices = []\<rparr> w"

definition add_device ::
  "'p world \<Rightarrow> addr \<Rightarrow> string \<Rightarrow> 'p device \<Rightarrow> unit outcome \<times> 'p world" where
  "add_device w self device_type device =
     (let a = agent_at w self in
      if device_type = ''source'' then
        (Returns (), set_agent self (a\<lparr>source_devices := source_devices a @ [device]\<rparr>) w)
      else if device_type = ''target'' then
        (Returns (), set_agent self (a\<lparr>target_devices := target_devices a @ [device]\<rparr>) w)
      else
        (Raises (Exception (''Invalid device type (e.g. 'source' or 'target'' @ [CHR 0x27])), w))"

section \<open>QConnect\<close>

definition QConnect_init ::
  "'p world \<Rightarrow> addr \<Rightarrow> addr \<Rightarrow> addr \<Rightarrow> 'p device list \<Rightarrow> 'p world" where
  "QConnect_init w self agent_one agent_two transit_devices =
     (let agent_one_name = name (agent_at w agent_one);
          agent_two_name = name (agent_at w agent_two);
          a1 = agent_at w agent_one;
          w1 = set_agent agent_one
                 (a1\<lparr>qconnections := (qconnections a1)(agent_two_name \<mapsto> self)\<rparr>) w;
          a2 = agent_at w1 agent_two;
          w2 = set_agent agent_two
                 (a2\<lparr>qconnections := (qconnections a2)(agent_one_name \<mapsto> self)\<rparr>) w1
      in set_qconnect self
           \<lparr>q_source_devices =
              [agent_one_name \<mapsto> SourceDevicesOf agent_one,
               agent_two_name \<mapsto> SourceDevicesOf agent_two],
            q_target_devices =
              [agent_one_name \<mapsto> TargetDevicesOf agent_one,
               agent_two_name \<mapsto> TargetDevicesOf agent_two],
            q_transit_devices =
              [agent_one_name \<mapsto> Own transit_devices,
               agent_two_name \<mapsto> Own (rev transit_devices)],
            q_agents =
              [agent_one_name \<mapsto> agent_one,
               agent_two_name \<mapsto> agent_two],
            q_queues =
              [agent_one_name \<mapsto> [],
               agent_two_name \<mapsto> []]\<rparr> w2)"

text \<open>
  The loop \<^verbatim>\<open>for device in devices: delay += device.apply(program, qubits)\<close>, with the
  program the devices change passed along.
\<close>

fun apply_devices :: "'p device list \<Rightarrow> 'p \<Rightarrow> int list \<Rightarrow> real \<Rightarrow> real \<times> 'p" where
  "apply_devices [] prog qs delay = (delay, prog)"
| "apply_devices (device # devices) prog qs delay =
     (case device prog qs of (d, prog') \<Rightarrow> apply_devices devices prog' qs (delay + d))"

text \<open>
  \<^verbatim>\<open>QConnect.put(self, source, target, qubits, source_time)\<close>. All four parameters are
  required: a call that passes three arguments (\<open>source_time = None\<close> below) raises
  \<^verbatim>\<open>TypeError\<close> when the arguments are bound, before the body runs.
\<close>

definition QConnect_put ::
  "'p world \<Rightarrow> addr \<Rightarrow> string \<Rightarrow> string \<Rightarrow> int list \<Rightarrow> real option
     \<Rightarrow> real outcome \<times> 'p world" where
  "QConnect_put w self source tgt qs source_time_arg =
     (case source_time_arg of
        None \<Rightarrow> (Raises TypeError, w)
      | Some source_time \<Rightarrow>
     (let c = qconnect_at w self in
      case q_source_devices c source of
        None \<Rightarrow> (Raises KeyError, w)
      | Some source_devs \<Rightarrow>
      (case q_transit_devices c source of
        None \<Rightarrow> (Raises KeyError, w)
      | Some transit_devs \<Rightarrow>
      (case q_target_devices c tgt of
        None \<Rightarrow> (Raises KeyError, w)
      | Some target_devs \<Rightarrow>
      (case q_agents c source of
        None \<Rightarrow> (Raises KeyError, w)
      | Some src \<Rightarrow>
      (let prog = program (agent_at w src);
           (source_delay, prog') =
              (if deref w source_devs = [] then (0 + pulse_length_default, program_at w prog)
               else apply_devices (deref w source_devs) (program_at w prog) qs 0);
           scaled_source_delay = source_delay * real (length qs);
           w1 = set_program prog prog' w
       in case q_queues c tgt of
            None \<Rightarrow> (Raises KeyError, w1)
          | Some queue \<Rightarrow>
              (Returns scaled_source_delay,
               set_qconnect self
                 (c\<lparr>q_queues := (q_queues c)(tgt \<mapsto>
                      queue @ [(qs, \<lparr>transit = transit_devs, target = target_devs\<rparr>,
                                scaled_source_delay, source_time)])\<rparr>) w1)))))))"

text \<open>
  The argument of \<^verbatim>\<open>QConnect.get(self, agent)\<close>: the method reads \<^verbatim>\<open>agent.name\<close>, which
  an \<^verbatim>\<open>Agent\<close> object has and a string has not (\<^verbatim>\<open>AttributeError\<close>).
\<close>

datatype pyarg = StrVal string | AgentObj addr

definition QConnect_get ::
  "'p world \<Rightarrow> addr \<Rightarrow> pyarg \<Rightarrow> (int list \<times> real \<times> real) outcome \<times> 'p world" where
  "QConnect_get w self agent =
     (let c = qconnect_at w self in
      case agent of
        StrVal _ \<Rightarrow> (Raises AttributeError, w)
      | AgentObj a \<Rightarrow>
      (case q_queues c (name (agent_at w a)) of
        None \<Rightarrow> (Raises KeyError, w)
      | Some [] \<Rightarrow> (Blocks, w)
      | Some ((qs, devices, source_delay, source_time) # queue) \<Rightarrow>
      (let w1 = set_qconnect self
                  (c\<lparr>q_queues := (q_queues c)(name (agent_at w a) \<mapsto> queue)\<rparr>) w;
           ag = agent_at w1 a;
           w2 = set_agent a (ag\<lparr>qubits := list_of_set (set (qs @ qubits ag))\<rparr>) w1
       in case q_agents c (name (agent_at w2 a)) of
            None \<Rightarrow> (Raises KeyError, w2)
          | Some receiver \<Rightarrow>
      (let prog = program (agent_at w2 receiver);
           transit_devices = deref w2 (transit devices);
           target_devices = deref w2 (target devices);
           travel_delay = 0;
           travel_delay =
             (if transit_devices = [] then travel_delay + fiber_length_default / signal_speed
              else travel_delay);
           travel_delay = (if target_devices = [] then travel_delay + 0 else travel_delay);
           (travel_delay, prog') =
              apply_devices (transit_devices @ target_devices) (program_at w2 prog) qs
                travel_delay;
           scaled_delay = travel_delay * real (length qs) + source_delay
       in (Returns (qs, scaled_delay, source_time), set_program prog prog' w2)))))"

section \<open>CConnect\<close>

definition CConnect_init :: "'p world \<Rightarrow> addr \<Rightarrow> addr \<Rightarrow> addr \<Rightarrow> real \<Rightarrow> 'p world" where
  "CConnect_init w self agent_one agent_two len =
     (let agent_one_name = name (agent_at w agent_one);
          agent_two_name = name (agent_at w agent_two);
          a1 = agent_at w agent_one;
          w1 = set_agent agent_one
                 (a1\<lparr>cconnections := (cconnections a1)(agent_two_name \<mapsto> self)\<rparr>) w;
          a2 = agent_at w1 agent_two;
          w2 = set_agent agent_two
                 (a2\<lparr>cconnections := (cconnections a2)(agent_one_name \<mapsto> self)\<rparr>) w1
      in set_cconnect self
           \<lparr>c_agents =
              [agent_one_name \<mapsto> agent_one,
               agent_two_name \<mapsto> agent_two],
            c_length = len,
            c_queues =
              [agent_one_name \<mapsto> [],
               agent_two_name \<mapsto> []]\<rparr> w2)"

text \<open>
  \<^verbatim>\<open>CConnect.put(self, target, cbits)\<close>. \<open>getsizeof\<close> stands for \<^verbatim>\<open>sys.getsizeof\<close>, the
  number of bytes the interpreter uses for the list object.
\<close>

definition CConnect_put ::
  "(int list \<Rightarrow> nat) \<Rightarrow> 'p world \<Rightarrow> addr \<Rightarrow> string \<Rightarrow> int list \<Rightarrow> real outcome \<times> 'p world" where
  "CConnect_put getsizeof w self tgt cbits =
     (let c = cconnect_at w self;
          csource_delay = pulse_length_default * 8 * real (getsizeof cbits)
      in case c_queues c tgt of
           None \<Rightarrow> (Raises KeyError, w)
         | Some queue \<Rightarrow>
             (Returns csource_delay,
              set_cconnect self
                (c\<lparr>c_queues := (c_queues c)(tgt \<mapsto> queue @ [(cbits, csource_delay)])\<rparr>) w))"

definition CConnect_get ::
  "'p world \<Rightarrow> addr \<Rightarrow> string \<Rightarrow> (int list \<times> real) outcome \<times> 'p world" where
  "CConnect_get w self agent =
     (let c = cconnect_at w self in
      case c_queues c agent of
        None \<Rightarrow> (Raises KeyError, w)
      | Some [] \<Rightarrow> (Blocks, w)
      | Some ((cbits, source_delay) # queue) \<Rightarrow>
          (let w1 = set_cconnect self (c\<lparr>c_queues := (c_queues c)(agent \<mapsto> queue)\<rparr>) w;
               travel_delay = c_length c / signal_speed;
               scaled_delay = travel_delay * real (length cbits) + source_delay
           in (Returns (cbits, scaled_delay), w1)))"

section \<open>Sending and receiving\<close>

text \<open>
  \<^verbatim>\<open>Agent.qsend\<close> calls \<^verbatim>\<open>connection.put(self.name, target, qubits)\<close>: three arguments.
\<close>

definition qsend :: "'p world \<Rightarrow> addr \<Rightarrow> string \<Rightarrow> int list \<Rightarrow> unit outcome \<times> 'p world" where
  "qsend w self tgt qs =
     (let a = agent_at w self in
      if \<not> set qs \<subseteq> set (qubits a) then
        (Raises (Exception ''Agent cannot send qubits they do not have''), w)
      else
        (let w1 = set_agent self (a\<lparr>qubits := list_of_set (set (qubits a) - set qs)\<rparr>) w in
         case qconnections (agent_at w1 self) tgt of
           None \<Rightarrow> (Raises KeyError, w1)
         | Some connection \<Rightarrow>
             (case QConnect_put w1 connection (name (agent_at w1 self)) tgt qs None of
                (Returns _, w2) \<Rightarrow> (Returns (), w2)
              | (Raises e, w2) \<Rightarrow> (Raises e, w2)
              | (Blocks, w2) \<Rightarrow> (Blocks, w2))))"

text \<open>
  \<^verbatim>\<open>Agent.qrecv\<close> calls \<^verbatim>\<open>connection.get(self.name)\<close>, a string, and unpacks the result
  into the two names \<^verbatim>\<open>qubits, delay\<close>. \<^verbatim>\<open>QConnect.get\<close> returns three values, so the
  unpacking of a returned value raises \<^verbatim>\<open>ValueError\<close> and the three statements after it
  are never reached.
\<close>

definition qrecv :: "'p world \<Rightarrow> addr \<Rightarrow> string \<Rightarrow> int list outcome \<times> 'p world" where
  "qrecv w self source =
     (case qconnections (agent_at w self) source of
        None \<Rightarrow> (Raises KeyError, w)
      | Some connection \<Rightarrow>
          (case QConnect_get w connection (StrVal (name (agent_at w self))) of
             (Returns (qs, delay, source_time), w1) \<Rightarrow> (Raises ValueError, w1)
           | (Raises e, w1) \<Rightarrow> (Raises e, w1)
           | (Blocks, w1) \<Rightarrow> (Blocks, w1)))"

definition csend ::
  "(int list \<Rightarrow> nat) \<Rightarrow> 'p world \<Rightarrow> addr \<Rightarrow> string \<Rightarrow> int list \<Rightarrow> unit outcome \<times> 'p world" where
  "csend getsizeof w self tgt cbits =
     (case cconnections (agent_at w self) tgt of
        None \<Rightarrow> (Raises KeyError, w)
      | Some connection \<Rightarrow>
          (case CConnect_put getsizeof w connection tgt cbits of
             (Returns _, w1) \<Rightarrow> (Returns (), w1)
           | (Raises e, w1) \<Rightarrow> (Raises e, w1)
           | (Blocks, w1) \<Rightarrow> (Blocks, w1)))"

text \<open>
  \<^verbatim>\<open>Agent.crecv\<close> returns what \<^verbatim>\<open>connection.get(self.name)\<close> returned, the pair of the
  bits and the delay, and has no other statement.
\<close>

definition crecv :: "'p world \<Rightarrow> addr \<Rightarrow> string \<Rightarrow> (int list \<times> real) outcome \<times> 'p world" where
  "crecv w self source =
     (case cconnections (agent_at w self) source of
        None \<Rightarrow> (Raises KeyError, w)
      | Some connection \<Rightarrow>
          (case CConnect_get w connection (name (agent_at w self)) of
             (Returns cbits, w1) \<Rightarrow> (Returns cbits, w1)
           | (Raises e, w1) \<Rightarrow> (Raises e, w1)
           | (Blocks, w1) \<Rightarrow> (Blocks, w1)))"

section \<open>Notions used to state the properties\<close>

text \<open>The delays the devices of a chain report, in the order of the chain.\<close>

fun device_delays :: "'p device list \<Rightarrow> 'p \<Rightarrow> int list \<Rightarrow> real list" where
  "device_delays [] prog qs = []"
| "device_delays (device # devices) prog qs =
     fst (device prog qs) # device_delays devices (snd (device prog qs)) qs"

text \<open>The source side of \<^verbatim>\<open>QConnect.put\<close>: the delay before scaling, and the program.\<close>

definition source_run :: "'p world \<Rightarrow> 'p devices \<Rightarrow> addr \<Rightarrow> int list \<Rightarrow> real \<times> 'p" where
  "source_run w source_devs prog qs =
     (if deref w source_devs = [] then (0 + pulse_length_default, program_at w prog)
      else apply_devices (deref w source_devs) (program_at w prog) qs 0)"

text \<open>
  Two names are joined by a connection when both are keys of each of its dictionaries,
  as \<^verbatim>\<open>QConnect.__init__\<close> leaves them; no method removes a key.
\<close>

definition joined :: "'p qconnect \<Rightarrow> string \<Rightarrow> string \<Rightarrow> bool" where
  "joined c n1 n2 \<longleftrightarrow>
     {n1, n2} \<subseteq> dom (q_source_devices c) \<and> {n1, n2} \<subseteq> dom (q_target_devices c) \<and>
     {n1, n2} \<subseteq> dom (q_transit_devices c) \<and> {n1, n2} \<subseteq> dom (q_agents c) \<and>
     {n1, n2} \<subseteq> dom (q_queues c)"

text \<open>A receiver that calls \<^verbatim>\<open>get\<close> \<open>n\<close> times and collects the payloads returned.\<close>

fun gets :: "nat \<Rightarrow> 'p world \<Rightarrow> addr \<Rightarrow> addr \<Rightarrow> int list list \<times> 'p world" where
  "gets 0 w c b = ([], w)"
| "gets (Suc n) w c b =
     (case QConnect_get w c (AgentObj b) of
        (Returns (qs, delay, source_time), w') \<Rightarrow>
          (case gets n w' c b of (received, w'') \<Rightarrow> (qs # received, w''))
      | (other, w') \<Rightarrow> ([], w'))"

section \<open>A small network\<close>

text \<open>
  Programs are lists of instruction names here; a device appends its instruction and
  reports a fixed delay.
\<close>

definition instr_device :: "string \<Rightarrow> real \<Rightarrow> (string list) device" where
  "instr_device s d = (\<lambda>prog qs. (d, prog @ [s]))"

definition blank :: "string list world" where
  "blank =
     \<lparr>agent_at = (\<lambda>_. \<lparr>name = [], time = 0, qconnections = Map.empty,
                        cconnections = Map.empty, qubits = [], program = 0,
                        target_devices = [], source_devices = []\<rparr>),
      program_at = (\<lambda>_. []),
      qconnect_at = (\<lambda>_. \<lparr>q_source_devices = Map.empty, q_target_devices = Map.empty,
                           q_transit_devices = Map.empty, q_agents = Map.empty,
                           q_queues = Map.empty\<rparr>),
      cconnect_at = (\<lambda>_. \<lparr>c_agents = Map.empty, c_length = 0, c_queues = Map.empty\<rparr>)\<rparr>"

text \<open>
  Alice (object 0, owning tokens 0 and 1) and Bob (object 1, owning nothing), joined by
  a quantum connection with two transit devices and by a classical connection of length
  299800 km; Bob then attaches a target device.
\<close>

definition alice_bob :: "string list world" where
  "alice_bob =
     snd (add_device
       (CConnect_init
          (QConnect_init
             (Agent_init (Agent_init blank 0 ''Agent'' 0 [0, 1] (Some ''Alice''))
                1 ''Agent'' 1 [] (Some ''Bob''))
             0 0 1 [instr_device ''t1'' 1, instr_device ''t2'' 2])
          0 0 1 299800)
       1 ''target'' (instr_device ''g1'' 4))"

text \<open>The same two agents joined by a quantum connection without any device.\<close>

definition alice_bob_plain :: "string list world" where
  "alice_bob_plain =
     QConnect_init
       (Agent_init (Agent_init blank 0 ''Agent'' 0 [0, 1] (Some ''Alice''))
          1 ''Agent'' 1 [] (Some ''Bob''))
       0 0 1 []"

text \<open>The stores after the connection has taken both tokens from Alice for Bob.\<close>

definition quantum_sent :: "string list world" where
  "quantum_sent = snd (QConnect_put alice_bob 0 ''Alice'' ''Bob'' [0, 1] (Some 0))"

definition plain_sent :: "string list world" where
  "plain_sent = snd (QConnect_put alice_bob_plain 0 ''Alice'' ''Bob'' [0, 1] (Some 0))"

text \<open>
  A size function for the examples: the bytes CPython reports on a 64-bit machine for a
  list display of \<open>n\<close> elements.
\<close>

definition cpython_getsizeof :: "int list \<Rightarrow> nat" where
  "cpython_getsizeof xs = 56 + 8 * length xs"

text \<open>The store after Alice has sent the bit index 1 to Bob over the classical connection.\<close>

definition classical_sent :: "string list world" where
  "classical_sent = snd (csend cpython_getsizeof alice_bob 0 ''Bob'' [1])"

text \<open>
  The store after Alice's tokens have been delivered to Bob and token 1 has been put on
  the connection once more: Bob owns 0 and 1, and 1 is pending for him.
\<close>

definition redelivery :: "string list world" where
  "redelivery =
     snd (QConnect_get (snd (QConnect_put quantum_sent 0 ''Alice'' ''Bob'' [1] (Some 0)))
            0 (AgentObj 1))"

lemmas example_defs = alice_bob_def alice_bob_plain_def blank_def instr_device_def
  Agent_init_def QConnect_init_def CConnect_init_def add_device_def
  set_agent_def set_qconnect_def set_cconnect_def set_program_def Let_def

lemmas run_defs = quantum_sent_def plain_sent_def classical_sent_def redelivery_def
  cpython_getsizeof_def QConnect_put_def QConnect_get_def CConnect_put_def CConnect_get_def
  csend_def crecv_def list_of_set_def

section \<open>Basic facts\<close>

lemma list_of_set_props:
  "finite S \<Longrightarrow>
     set (list_of_set S) = S \<and> distinct (list_of_set S) \<and> length (list_of_set S) = card S"
  by (simp add: list_of_set_def)

lemma apply_devices_fst:
  "fst (apply_devices ds prog qs delay) = delay + sum_list (device_delays ds prog qs)"
  by (induction ds arbitrary: prog delay) (auto split: prod.splits)

lemma apply_devices_snd:
  "snd (apply_devices ds prog qs delay) = fold (\<lambda>device p. snd (device p qs)) ds prog"
  by (induction ds arbitrary: prog delay) (auto split: prod.splits)

lemma QConnect_put_three_arguments:
  "QConnect_put w c source tgt qs None = (Raises TypeError, w)"
  by (simp add: QConnect_put_def)

lemma QConnect_put_Returns:
  assumes "q_source_devices (qconnect_at w c) source = Some sd"
    and "q_transit_devices (qconnect_at w c) source = Some td"
    and "q_target_devices (qconnect_at w c) tgt = Some gd"
    and "q_agents (qconnect_at w c) source = Some src"
    and "q_queues (qconnect_at w c) tgt = Some queue"
  shows "QConnect_put w c source tgt qs (Some t) =
    (Returns (fst (source_run w sd (program (agent_at w src)) qs) * real (length qs)),
     set_qconnect c
       ((qconnect_at w c)\<lparr>q_queues := (q_queues (qconnect_at w c))(tgt \<mapsto>
           queue @ [(qs, \<lparr>transit = td, target = gd\<rparr>,
                     fst (source_run w sd (program (agent_at w src)) qs) * real (length qs),
                     t)])\<rparr>)
       (set_program (program (agent_at w src))
          (snd (source_run w sd (program (agent_at w src)) qs)) w))"
  using assms
  by (simp add: QConnect_put_def Let_def source_run_def set_program_def set_qconnect_def
      split: prod.splits)

lemma QConnect_get_Returns:
  assumes "q_queues (qconnect_at w c) (name (agent_at w b)) = Some ((qs, devs, sd, st) # queue)"
    and "q_agents (qconnect_at w c) (name (agent_at w b)) = Some r"
  shows "QConnect_get w c (AgentObj b) =
    (Returns (qs,
       sum_list (device_delays (deref w (transit devs) @ deref w (target devs))
                   (program_at w (program (agent_at w r))) qs) * real (length qs) + sd, st),
     set_program (program (agent_at w r))
       (fold (\<lambda>device p. snd (device p qs)) (deref w (transit devs) @ deref w (target devs))
          (program_at w (program (agent_at w r))))
       (set_agent b
          ((agent_at w b)\<lparr>qubits := list_of_set (set (qs @ qubits (agent_at w b)))\<rparr>)
          (set_qconnect c
             ((qconnect_at w c)\<lparr>q_queues :=
                (q_queues (qconnect_at w c))(name (agent_at w b) \<mapsto> queue)\<rparr>) w)))"
proof -
  let ?w1 = "set_qconnect c
             ((qconnect_at w c)\<lparr>q_queues :=
                (q_queues (qconnect_at w c))(name (agent_at w b) \<mapsto> queue)\<rparr>) w"
  let ?w2 = "set_agent b
               ((agent_at w b)\<lparr>qubits := list_of_set (set (qs @ qubits (agent_at w b)))\<rparr>) ?w1"
  have d: "deref ?w2 x = deref w x" for x
    by (cases x) (simp_all add: set_agent_def set_qconnect_def)
  have p: "program (agent_at ?w2 r) = program (agent_at w r)"
    by (simp add: set_agent_def set_qconnect_def)
  have n: "name (agent_at ?w2 b) = name (agent_at w b)"
    by (simp add: set_agent_def set_qconnect_def)
  have pa: "program_at ?w2 = program_at w"
    by (simp add: set_agent_def set_qconnect_def)
  have a1: "agent_at ?w1 b = agent_at w b"
    by (simp add: set_qconnect_def)
  show ?thesis
    using assms unfolding QConnect_get_def Let_def
    apply (simp only: pyarg.case option.case list.case prod.case d p n pa a1)
    apply (simp add: split_beta apply_devices_fst apply_devices_snd fiber_length_default_def)
    done
qed

lemma qsend_cases:
  "qsend w self tgt qs =
     (if \<not> set qs \<subseteq> set (qubits (agent_at w self))
      then (Raises (Exception ''Agent cannot send qubits they do not have''), w)
      else (case qconnections (agent_at w self) tgt of
              None \<Rightarrow> Raises KeyError
            | Some _ \<Rightarrow> Raises TypeError,
            set_agent self
              ((agent_at w self)\<lparr>qubits :=
                 list_of_set (set (qubits (agent_at w self)) - set qs)\<rparr>) w))"
  by (simp add: qsend_def Let_def QConnect_put_three_arguments set_agent_def
      split: option.splits)

lemma qrecv_cases:
  "qrecv w self source =
     (case qconnections (agent_at w self) source of
        None \<Rightarrow> Raises KeyError
      | Some _ \<Rightarrow> Raises AttributeError, w)"
  by (simp add: qrecv_def QConnect_get_def split: option.splits)

lemma QConnect_put_step:
  assumes "joined (qconnect_at w c) A B"
    and "q_queues (qconnect_at w c) B = Some queue"
  shows "\<exists>d w' devs.
           QConnect_put w c A B qs (Some t) = (Returns d, w') \<and>
           q_queues (qconnect_at w' c) B = Some (queue @ [(qs, devs, d, t)]) \<and>
           (\<forall>n. n \<noteq> B \<longrightarrow> q_queues (qconnect_at w' c) n = q_queues (qconnect_at w c) n) \<and>
           joined (qconnect_at w' c) A B \<and>
           agent_at w' = agent_at w"
proof -
  from assms(1) obtain sd td gd src where l:
    "q_source_devices (qconnect_at w c) A = Some sd"
    "q_transit_devices (qconnect_at w c) A = Some td"
    "q_target_devices (qconnect_at w c) B = Some gd"
    "q_agents (qconnect_at w c) A = Some src"
    unfolding joined_def by (auto simp: dom_def)
  let ?d = "fst (source_run w sd (program (agent_at w src)) qs) * real (length qs)"
  let ?c' = "(qconnect_at w c)\<lparr>q_queues := (q_queues (qconnect_at w c))(B \<mapsto>
           queue @ [(qs, \<lparr>transit = td, target = gd\<rparr>, ?d, t)])\<rparr>"
  let ?w' = "set_qconnect c ?c'
       (set_program (program (agent_at w src))
          (snd (source_run w sd (program (agent_at w src)) qs)) w)"
  have e: "QConnect_put w c A B qs (Some t) = (Returns ?d, ?w')"
    by (rule QConnect_put_Returns [OF l assms(2)])
  have c': "qconnect_at ?w' c = ?c'"
    by (simp add: set_qconnect_def)
  have "q_queues (qconnect_at ?w' c) B =
          Some (queue @ [(qs, \<lparr>transit = td, target = gd\<rparr>, ?d, t)])"
    by (simp only: c') simp
  moreover have "\<forall>n. n \<noteq> B \<longrightarrow> q_queues (qconnect_at ?w' c) n = q_queues (qconnect_at w c) n"
    by (simp only: c') simp
  moreover have "joined (qconnect_at ?w' c) A B"
    using assms(1) by (simp only: c') (simp add: joined_def)
  moreover have "agent_at ?w' = agent_at w"
    by (simp add: set_qconnect_def set_program_def)
  ultimately show ?thesis using e by blast
qed

lemma QConnect_get_step:
  assumes "joined (qconnect_at w c) A B"
    and "name (agent_at w b) = B"
    and "q_queues (qconnect_at w c) B = Some ((qs, devs, sd, st) # queue)"
  shows "\<exists>d w'.
           QConnect_get w c (AgentObj b) = (Returns (qs, d, st), w') \<and>
           q_queues (qconnect_at w' c) B = Some queue \<and>
           joined (qconnect_at w' c) A B \<and>
           name (agent_at w' b) = B"
proof -
  from assms(1) obtain r where r: "q_agents (qconnect_at w c) B = Some r"
    unfolding joined_def by (auto simp: dom_def)
  let ?c' = "(qconnect_at w c)\<lparr>q_queues :=
                (q_queues (qconnect_at w c))(name (agent_at w b) \<mapsto> queue)\<rparr>"
  let ?w1 = "set_agent b
          ((agent_at w b)\<lparr>qubits := list_of_set (set (qs @ qubits (agent_at w b)))\<rparr>)
          (set_qconnect c ?c' w)"
  from QConnect_get_Returns [of w c b qs devs sd st queue r] assms r
  obtain d pr where e: "QConnect_get w c (AgentObj b) =
      (Returns (qs, d, st), set_program (program (agent_at w r)) pr ?w1)"
    by simp
  let ?w' = "set_program (program (agent_at w r)) pr ?w1"
  have c': "qconnect_at ?w' c = ?c'"
    by (simp add: set_qconnect_def set_program_def set_agent_def)
  have "q_queues (qconnect_at ?w' c) (name (agent_at w b)) = Some queue"
    by (simp only: c') simp
  then have "q_queues (qconnect_at ?w' c) B = Some queue"
    using assms(2) by simp
  moreover have "joined (qconnect_at ?w' c) A B"
    using assms(1) by (simp only: c') (simp add: joined_def)
  moreover have "name (agent_at ?w' b) = B"
    using assms(2) by (simp add: set_qconnect_def set_program_def set_agent_def)
  ultimately show ?thesis using e by blast
qed

lemma QConnect_get_Blocks:
  assumes "q_queues (qconnect_at w c) (name (agent_at w b)) = Some []"
  shows "QConnect_get w c (AgentObj b) = (Blocks, w)"
  using assms by (simp add: QConnect_get_def)

lemma gets_in_queue_order:
  assumes "joined (qconnect_at w c) A B"
    and "name (agent_at w b) = B"
    and "q_queues (qconnect_at w c) B = Some queue"
  shows "fst (gets (length queue) w c b) = map fst queue"
  using assms
proof (induction queue arbitrary: w)
  case Nil
  then show ?case by simp
next
  case (Cons e queue)
  obtain qs devs sd st where e: "e = (qs, devs, sd, st)" by (cases e)
  from QConnect_get_step [OF Cons.prems(1,2)] Cons.prems(3) e
  obtain d w' where g: "QConnect_get w c (AgentObj b) = (Returns (qs, d, st), w')"
    and q: "q_queues (qconnect_at w' c) B = Some queue"
    and j: "joined (qconnect_at w' c) A B" and n: "name (agent_at w' b) = B"
    by blast
  from Cons.IH [OF j n q] g e show ?case
    by (simp add: split_beta)
qed

lemma puts_then_gets_in_send_order:
  assumes "joined (qconnect_at w c) A B"
    and "name (agent_at w b) = B"
    and "q_queues (qconnect_at w c) B = Some queue"
  shows "fst (gets (length queue + 2)
                (snd (QConnect_put (snd (QConnect_put w c A B P1 (Some t1))) c A B P2 (Some t2)))
                c b) =
           map fst queue @ [P1, P2]"
proof -
  from QConnect_put_step [OF assms(1) assms(3), of P1 t1]
  obtain d1 w1 n1 where p1: "QConnect_put w c A B P1 (Some t1) = (Returns d1, w1)"
    and q1: "q_queues (qconnect_at w1 c) B = Some (queue @ [(P1, n1, d1, t1)])"
    and j1: "joined (qconnect_at w1 c) A B" and a1: "agent_at w1 = agent_at w"
    by blast
  from QConnect_put_step [OF j1 q1, of P2 t2]
  obtain d2 w2 n2 where p2: "QConnect_put w1 c A B P2 (Some t2) = (Returns d2, w2)"
    and q2: "q_queues (qconnect_at w2 c) B =
               Some ((queue @ [(P1, n1, d1, t1)]) @ [(P2, n2, d2, t2)])"
    and j2: "joined (qconnect_at w2 c) A B" and a2: "agent_at w2 = agent_at w1"
    by blast
  have b2: "name (agent_at w2 b) = B" using a1 a2 assms(2) by simp
  from gets_in_queue_order [OF j2 b2 q2] p1 p2 show ?thesis by simp
qed

lemma QConnect_init_qconnect:
  "qconnect_at (QConnect_init w c a1 a2 D) c =
     \<lparr>q_source_devices =
        [name (agent_at w a1) \<mapsto> SourceDevicesOf a1, name (agent_at w a2) \<mapsto> SourceDevicesOf a2],
      q_target_devices =
        [name (agent_at w a1) \<mapsto> TargetDevicesOf a1, name (agent_at w a2) \<mapsto> TargetDevicesOf a2],
      q_transit_devices =
        [name (agent_at w a1) \<mapsto> Own D, name (agent_at w a2) \<mapsto> Own (rev D)],
      q_agents = [name (agent_at w a1) \<mapsto> a1, name (agent_at w a2) \<mapsto> a2],
      q_queues = [name (agent_at w a1) \<mapsto> [], name (agent_at w a2) \<mapsto> []]\<rparr>"
  by (simp add: QConnect_init_def Let_def set_qconnect_def)

lemma QConnect_init_agent:
  "name (agent_at (QConnect_init w c a1 a2 D) x) = name (agent_at w x)"
  "program (agent_at (QConnect_init w c a1 a2 D) x) = program (agent_at w x)"
  "source_devices (agent_at (QConnect_init w c a1 a2 D) x) = source_devices (agent_at w x)"
  "target_devices (agent_at (QConnect_init w c a1 a2 D) x) = target_devices (agent_at w x)"
  "qubits (agent_at (QConnect_init w c a1 a2 D) x) = qubits (agent_at w x)"
  "time (agent_at (QConnect_init w c a1 a2 D) x) = time (agent_at w x)"
  "program_at (QConnect_init w c a1 a2 D) = program_at w"
  by (simp_all add: QConnect_init_def Let_def set_qconnect_def set_agent_def)

lemma QConnect_init_joined:
  "joined (qconnect_at (QConnect_init w c a1 a2 D) c) (name (agent_at w a1)) (name (agent_at w a2))"
  by (simp add: QConnect_init_qconnect joined_def)

lemma quantum_sent_queue:
  "q_queues (qconnect_at quantum_sent 0) ''Bob'' =
     Some [([0, 1], \<lparr>transit = Own [instr_device ''t1'' 1, instr_device ''t2'' 2],
                       target = TargetDevicesOf 1\<rparr>, 2 * pulse_length_default, 0)]"
  by (simp add: run_defs example_defs)

lemma qsend_never_returns: "fst (qsend w self tgt qs) \<noteq> Returns ()"
  by (simp add: qsend_cases split: option.splits)

lemma qrecv_never_returns: "fst (qrecv w self source) \<noteq> Returns qs"
  by (simp add: qrecv_cases split: option.splits)

lemma qrecv_never_blocks: "fst (qrecv w self source) \<noteq> Blocks"
  by (simp add: qrecv_cases split: option.splits)

section \<open>The properties\<close>

text \<open>
  C1. An agent that owns the tokens it sends: \<^verbatim>\<open>qsend\<close> takes them out of the agent's
  list and then calls \<^verbatim>\<open>put\<close> with three arguments where four are required. The call
  raises \<^verbatim>\<open>TypeError\<close>; nothing reaches the queue. Here Alice sends both her tokens to
  Bob. By \<open>qsend_never_returns\<close> no call of \<^verbatim>\<open>qsend\<close> returns.
\<close>

theorem qsend_owned_fails:
  "qsend alice_bob 0 ''Bob'' [0, 1] =
     (Raises TypeError, set_agent 0 ((agent_at alice_bob 0)\<lparr>qubits := []\<rparr>) alice_bob)"
  by (simp add: qsend_cases) (simp add: list_of_set_def example_defs)

text \<open>
  C2. An entry is pending for Bob, and \<^verbatim>\<open>qrecv\<close> raises \<^verbatim>\<open>AttributeError\<close>: it passes
  its name to \<^verbatim>\<open>QConnect.get\<close>, which reads the attribute \<^verbatim>\<open>name\<close> of its argument. The
  entry stays on the queue, and Bob's tokens and clock are as before. By
  \<open>qrecv_never_returns\<close> and \<open>qrecv_never_blocks\<close> no call of \<^verbatim>\<open>qrecv\<close> returns or
  waits.
\<close>

theorem qrecv_pending_fails:
  "map fst (case q_queues (qconnect_at quantum_sent 0) ''Bob'' of Some q \<Rightarrow> q | None \<Rightarrow> []) = [[0, 1]] \<and>
   qrecv quantum_sent 1 ''Alice'' = (Raises AttributeError, quantum_sent)"
  by (simp add: qrecv_cases quantum_sent_queue) (simp add: run_defs example_defs)

text \<open>
  C3. The delay \<^verbatim>\<open>QConnect.get\<close> returns for an entry is the delay stored in the entry
  plus the sum of the delays of the transit devices followed by the target devices,
  times the number of tokens. \<^verbatim>\<open>QConnect.put\<close> with an empty source chain returns the
  default pulse length times the number of tokens. \<^verbatim>\<open>QConnect.get\<close> with empty transit
  and target chains adds the default fibre length over the signal speed, times the
  number of tokens, to the stored delay.
\<close>

theorem delay_additivity:
  "(q_queues (qconnect_at w c) (name (agent_at w b)) = Some ((qs, devs, sd, st) # queue) \<and>
    q_agents (qconnect_at w c) (name (agent_at w b)) = Some r \<longrightarrow>
      fst (QConnect_get w c (AgentObj b)) =
        Returns (qs,
          sd + sum_list (device_delays (deref w (transit devs) @ deref w (target devs))
                  (program_at w (program (agent_at w r))) qs) * real (length qs), st)) \<and>
   (joined (qconnect_at w1 c1) source tgt \<and>
    q_source_devices (qconnect_at w1 c1) source = Some source_devs \<and>
    deref w1 source_devs = [] \<longrightarrow>
      fst (QConnect_put w1 c1 source tgt qs1 (Some t)) =
        Returns (pulse_length_default * real (length qs1))) \<and>
   (q_queues (qconnect_at w2 c2) (name (agent_at w2 b2)) = Some ((qs2, devs2, sd2, st2) # queue2) \<and>
    q_agents (qconnect_at w2 c2) (name (agent_at w2 b2)) = Some r2 \<and>
    deref w2 (transit devs2) = [] \<and> deref w2 (target devs2) = [] \<longrightarrow>
      fst (QConnect_get w2 c2 (AgentObj b2)) =
        Returns (qs2, sd2 + fiber_length_default / signal_speed * real (length qs2), st2))"
proof -
  have put: "fst (QConnect_put w1 c1 source tgt qs1 (Some t)) =
        Returns (pulse_length_default * real (length qs1))"
    if j: "joined (qconnect_at w1 c1) source tgt"
      and s: "q_source_devices (qconnect_at w1 c1) source = Some source_devs"
      and e: "deref w1 source_devs = []"
  proof -
    from j obtain td gd src queue where
      "q_transit_devices (qconnect_at w1 c1) source = Some td"
      "q_target_devices (qconnect_at w1 c1) tgt = Some gd"
      "q_agents (qconnect_at w1 c1) source = Some src"
      "q_queues (qconnect_at w1 c1) tgt = Some queue"
      unfolding joined_def by (auto simp: dom_def)
    from QConnect_put_Returns [OF s this] e show ?thesis
      by (simp add: source_run_def)
  qed
  show ?thesis
    using put by (auto simp: QConnect_get_Returns fiber_length_default_def)
qed

theorem delay_additivity_witness:
  "q_queues (qconnect_at quantum_sent 0) (name (agent_at quantum_sent 1)) =
     Some [([0, 1], \<lparr>transit = Own [instr_device ''t1'' 1, instr_device ''t2'' 2],
                       target = TargetDevicesOf 1\<rparr>, 2 * pulse_length_default, 0)] \<and>
   q_agents (qconnect_at quantum_sent 0) (name (agent_at quantum_sent 1)) = Some 1 \<and>
   device_delays ([instr_device ''t1'' 1, instr_device ''t2'' 2] @ [instr_device ''g1'' 4])
     [] [0, 1] = [1, 2, 4] \<and>
   fst (QConnect_get quantum_sent 0 (AgentObj 1)) =
     Returns ([0, 1], 2 * pulse_length_default + (1 + 2 + 4) * 2, 0) \<and>
   joined (qconnect_at alice_bob 0) ''Alice'' ''Bob'' \<and>
   q_source_devices (qconnect_at alice_bob 0) ''Alice'' = Some (SourceDevicesOf 0) \<and>
   deref alice_bob (SourceDevicesOf 0) = [] \<and>
   fst (QConnect_put alice_bob 0 ''Alice'' ''Bob'' [0, 1] (Some 0)) =
     Returns (pulse_length_default * 2) \<and>
   q_queues (qconnect_at plain_sent 0) (name (agent_at plain_sent 1)) =
     Some [([0, 1], \<lparr>transit = Own [], target = TargetDevicesOf 1\<rparr>,
            2 * pulse_length_default, 0)] \<and>
   q_agents (qconnect_at plain_sent 0) (name (agent_at plain_sent 1)) = Some 1 \<and>
   deref plain_sent (Own []) = [] \<and> deref plain_sent (TargetDevicesOf 1) = [] \<and>
   fst (QConnect_get plain_sent 0 (AgentObj 1)) =
     Returns ([0, 1], 2 * pulse_length_default + fiber_length_default / signal_speed * 2, 0)"
proof -
  let ?devs = "\<lparr>transit = Own [instr_device ''t1'' 1, instr_device ''t2'' 2],
                 target = TargetDevicesOf 1\<rparr>"
  let ?plain = "\<lparr>transit = Own ([] :: string list device list), target = TargetDevicesOf 1\<rparr>"
  have a1: "q_queues (qconnect_at quantum_sent 0) (name (agent_at quantum_sent 1)) =
     Some (([0, 1], ?devs, 2 * pulse_length_default, 0) # [])"
    and a2: "q_agents (qconnect_at quantum_sent 0) (name (agent_at quantum_sent 1)) = Some 1"
    by (simp_all add: run_defs example_defs)
  have dd: "device_delays (deref quantum_sent (transit ?devs) @ deref quantum_sent (target ?devs))
      (program_at quantum_sent (program (agent_at quantum_sent 1))) [0, 1] = [1, 2, 4]"
    and dd': "device_delays ([instr_device ''t1'' 1, instr_device ''t2'' 2] @ [instr_device ''g1'' 4])
     [] [0, 1] = [1, 2, 4]"
    by (simp_all add: run_defs example_defs)
  have b1: "joined (qconnect_at alice_bob 0) ''Alice'' ''Bob''"
    and b2: "q_source_devices (qconnect_at alice_bob 0) ''Alice'' = Some (SourceDevicesOf 0)"
    and b3: "deref alice_bob (SourceDevicesOf 0) = []"
    by (simp_all add: joined_def example_defs)
  have c1: "q_queues (qconnect_at plain_sent 0) (name (agent_at plain_sent 1)) =
     Some (([0, 1], ?plain, 2 * pulse_length_default, 0) # [])"
    and c2: "q_agents (qconnect_at plain_sent 0) (name (agent_at plain_sent 1)) = Some 1"
    and c3: "deref plain_sent (transit ?plain) = []"
    and c4: "deref plain_sent (target ?plain) = []"
    by (simp_all add: run_defs example_defs)
  from delay_additivity [of quantum_sent 0 1 "[0, 1]" ?devs "2 * pulse_length_default" 0 "[]" 1
      alice_bob 0 "''Alice''" "''Bob''" "SourceDevicesOf 0" "[0, 1]" 0
      plain_sent 0 1 "[0, 1]" ?plain "2 * pulse_length_default" 0 "[]" 1]
    a1 a2 dd dd' b1 b2 b3 c1 c2 c3 c4
  show ?thesis by simp
qed

text \<open>
  C4. On a connection that joins A and B, with nothing pending for B: after a put of P1
  and then a put of P2, both from A to B, the first get by B returns P1 and the second
  returns P2, and a third get waits. A get by B waits while nothing was put for B, also
  after a put in the other direction. (\<open>puts_then_gets_in_send_order\<close> is the same
  order with entries pending beforehand.)
\<close>

theorem fifo_per_direction:
  assumes "joined (qconnect_at w c) A B"
    and "name (agent_at w b) = B"
    and "q_queues (qconnect_at w c) B = Some []"
  shows "(\<exists>d1 w1 d2 w2 d3 w3 d4 w4.
            QConnect_put w c A B P1 (Some t1) = (Returns d1, w1) \<and>
            QConnect_put w1 c A B P2 (Some t2) = (Returns d2, w2) \<and>
            QConnect_get w2 c (AgentObj b) = (Returns (P1, d3, t1), w3) \<and>
            QConnect_get w3 c (AgentObj b) = (Returns (P2, d4, t2), w4) \<and>
            QConnect_get w4 c (AgentObj b) = (Blocks, w4)) \<and>
         QConnect_get w c (AgentObj b) = (Blocks, w) \<and>
         (A \<noteq> B \<longrightarrow>
            (\<exists>d w'. QConnect_put w c B A P (Some t) = (Returns d, w') \<and>
                    QConnect_get w' c (AgentObj b) = (Blocks, w')))"
proof -
  from QConnect_put_step [OF assms(1) assms(3), of P1 t1]
  obtain d1 w1 n1 where p1: "QConnect_put w c A B P1 (Some t1) = (Returns d1, w1)"
    and q1: "q_queues (qconnect_at w1 c) B = Some ([] @ [(P1, n1, d1, t1)])"
    and j1: "joined (qconnect_at w1 c) A B" and a1: "agent_at w1 = agent_at w"
    by blast
  from QConnect_put_step [OF j1 q1, of P2 t2]
  obtain d2 w2 n2 where p2: "QConnect_put w1 c A B P2 (Some t2) = (Returns d2, w2)"
    and q2': "q_queues (qconnect_at w2 c) B = Some (([] @ [(P1, n1, d1, t1)]) @ [(P2, n2, d2, t2)])"
    and j2: "joined (qconnect_at w2 c) A B" and a2: "agent_at w2 = agent_at w1"
    by blast
  from q2' have q2: "q_queues (qconnect_at w2 c) B = Some ((P1, n1, d1, t1) # [(P2, n2, d2, t2)])"
    by simp
  have b2: "name (agent_at w2 b) = B" using a1 a2 assms(2) by simp
  from QConnect_get_step [OF j2 b2 q2]
  obtain d3 w3 where g3: "QConnect_get w2 c (AgentObj b) = (Returns (P1, d3, t1), w3)"
    and q3: "q_queues (qconnect_at w3 c) B = Some [(P2, n2, d2, t2)]"
    and j3: "joined (qconnect_at w3 c) A B" and b3: "name (agent_at w3 b) = B"
    by blast
  from QConnect_get_step [OF j3 b3 q3]
  obtain d4 w4 where g4: "QConnect_get w3 c (AgentObj b) = (Returns (P2, d4, t2), w4)"
    and q4: "q_queues (qconnect_at w4 c) B = Some []"
    and b4: "name (agent_at w4 b) = B"
    by blast
  have g5: "QConnect_get w4 c (AgentObj b) = (Blocks, w4)"
    using QConnect_get_Blocks [of w4 c b] q4 b4 by simp
  have g0: "QConnect_get w c (AgentObj b) = (Blocks, w)"
    using QConnect_get_Blocks [of w c b] assms by simp
  have other: "\<exists>d w'. QConnect_put w c B A P (Some t) = (Returns d, w') \<and>
                    QConnect_get w' c (AgentObj b) = (Blocks, w')" if "A \<noteq> B"
  proof -
    from assms(1) have j: "joined (qconnect_at w c) B A"
      by (auto simp: joined_def)
    from assms(1) obtain qa where qa: "q_queues (qconnect_at w c) A = Some qa"
      unfolding joined_def by (auto simp: dom_def)
    from QConnect_put_step [OF j qa, of P t]
    obtain d w' n where p: "QConnect_put w c B A P (Some t) = (Returns d, w')"
      and q: "\<forall>n. n \<noteq> A \<longrightarrow> q_queues (qconnect_at w' c) n = q_queues (qconnect_at w c) n"
      and a: "agent_at w' = agent_at w"
      by blast
    from q that assms(3) have "q_queues (qconnect_at w' c) (name (agent_at w' b)) = Some []"
      using a assms(2) by simp
    from QConnect_get_Blocks [OF this] p show ?thesis by blast
  qed
  from p1 p2 g3 g4 g5 g0 other show ?thesis by blast
qed

theorem fifo_per_direction_witness:
  "joined (qconnect_at alice_bob 0) ''Alice'' ''Bob'' \<and>
   name (agent_at alice_bob 1) = ''Bob'' \<and>
   q_queues (qconnect_at alice_bob 0) ''Bob'' = Some [] \<and>
   (\<exists>d1 w1 d2 w2 d3 w3 d4 w4.
      QConnect_put alice_bob 0 ''Alice'' ''Bob'' [0] (Some 0) = (Returns d1, w1) \<and>
      QConnect_put w1 0 ''Alice'' ''Bob'' [1] (Some 5) = (Returns d2, w2) \<and>
      QConnect_get w2 0 (AgentObj 1) = (Returns ([0], d3, 0), w3) \<and>
      QConnect_get w3 0 (AgentObj 1) = (Returns ([1], d4, 5), w4) \<and>
      QConnect_get w4 0 (AgentObj 1) = (Blocks, w4)) \<and>
   QConnect_get alice_bob 0 (AgentObj 1) = (Blocks, alice_bob) \<and>
   ''Alice'' \<noteq> ''Bob'' \<and>
   (\<exists>d w'. QConnect_put alice_bob 0 ''Bob'' ''Alice'' [7] (Some 0) = (Returns d, w') \<and>
           QConnect_get w' 0 (AgentObj 1) = (Blocks, w'))"
proof -
  have h1: "joined (qconnect_at alice_bob 0) ''Alice'' ''Bob''"
    and h2: "name (agent_at alice_bob 1) = ''Bob''"
    and h3: "q_queues (qconnect_at alice_bob 0) ''Bob'' = Some []"
    by (simp_all add: joined_def example_defs)
  from fifo_per_direction [OF h1 h2 h3, of "[0]" 0 "[1]" 5 "[7]" 0] h1 h2 h3
  show ?thesis by simp
qed

text \<open>
  C5. When the tokens to send are not all among the tokens the agent owns, \<^verbatim>\<open>qsend\<close>
  raises the ownership error and the whole store is as before the call: the agent's
  tokens, its clock, and the queues of every connection.
\<close>

theorem qsend_not_owned:
  assumes "\<not> set qs \<subseteq> set (qubits (agent_at w self))"
  shows "qsend w self tgt qs =
           (Raises (Exception ''Agent cannot send qubits they do not have''), w)"
  using assms by (simp add: qsend_def)

theorem qsend_not_owned_witness:
  "\<not> set [0, 2] \<subseteq> set (qubits (agent_at alice_bob 0)) \<and>
   qsend alice_bob 0 ''Bob'' [0, 2] =
     (Raises (Exception ''Agent cannot send qubits they do not have''), alice_bob)"
proof -
  have h: "\<not> set [0, 2] \<subseteq> set (qubits (agent_at alice_bob 0))"
    by (simp add: example_defs)
  from qsend_not_owned [OF h] h show ?thesis by simp
qed

text \<open>
  C6, as stated, fails. With the size of the bits read off the send-time delay (512 bits
  for the one-element list), the delay reported on receive is the send-time delay plus
  the travel time once, not 512 times: the travel time is scaled by the number of
  elements. And \<^verbatim>\<open>crecv\<close> returns the pair of the bits and the delay and leaves the
  receiver's clock as it was.
\<close>

theorem classical_delay_counterexample:
  "fst (CConnect_put cpython_getsizeof alice_bob 0 ''Bob'' [1]) =
     Returns (pulse_length_default * 512) \<and>
   fst (crecv classical_sent 1 ''Alice'') = Returns ([1], pulse_length_default * 512 + 1) \<and>
   pulse_length_default * 512 + 1 \<noteq> pulse_length_default * 512 + c_length (cconnect_at alice_bob 0) / signal_speed * 512 \<and>
   time (agent_at (snd (crecv classical_sent 1 ''Alice'')) 1) = time (agent_at classical_sent 1) \<and>
   time (agent_at (snd (crecv classical_sent 1 ''Alice'')) 1) \<noteq>
     time (agent_at classical_sent 1) + (pulse_length_default * 512 + 1)"
  by (simp add: run_defs example_defs signal_speed_def pulse_length_default_def)

text \<open>
  C6, amended. \<^verbatim>\<open>csend\<close> over a registered classical connection appends the bits to
  the queue of the target with the send-time delay
  \<^verbatim>\<open>pulse_length_default * 8 * sys.getsizeof(cbits)\<close>, which \<^verbatim>\<open>CConnect.put\<close> returns.
  \<^verbatim>\<open>CConnect.get\<close> removes the oldest entry and returns its bits with the stored
  send-time delay plus \<^verbatim>\<open>length / signal_speed * len(cbits)\<close>.
\<close>

theorem classical_delay_amended:
  "(cconnections (agent_at w a) B = Some c \<and> c_queues (cconnect_at w c) B = Some queue \<longrightarrow>
      fst (csend getsizeof w a B cbits) = Returns () \<and>
      fst (CConnect_put getsizeof w c B cbits) =
        Returns (pulse_length_default * 8 * real (getsizeof cbits)) \<and>
      c_queues (cconnect_at (snd (csend getsizeof w a B cbits)) c) B =
        Some (queue @ [(cbits, pulse_length_default * 8 * real (getsizeof cbits))])) \<and>
   (c_queues (cconnect_at w' c') B' = Some ((bits', source_delay) # queue') \<longrightarrow>
      fst (CConnect_get w' c' B') =
        Returns (bits', source_delay + c_length (cconnect_at w' c') / signal_speed * real (length bits')) \<and>
      c_queues (cconnect_at (snd (CConnect_get w' c' B')) c') B' = Some queue')"
  by (simp add: csend_def CConnect_put_def CConnect_get_def Let_def set_cconnect_def)

theorem classical_delay_amended_witness:
  "cconnections (agent_at alice_bob 0) ''Bob'' = Some 0 \<and>
   c_queues (cconnect_at alice_bob 0) ''Bob'' = Some [] \<and>
   fst (csend cpython_getsizeof alice_bob 0 ''Bob'' [1]) = Returns () \<and>
   fst (CConnect_put cpython_getsizeof alice_bob 0 ''Bob'' [1]) = Returns (pulse_length_default * 512) \<and>
   c_queues (cconnect_at classical_sent 0) ''Bob'' = Some [([1], pulse_length_default * 512)] \<and>
   fst (CConnect_get classical_sent 0 ''Bob'') = Returns ([1], pulse_length_default * 512 + 1) \<and>
   c_queues (cconnect_at (snd (CConnect_get classical_sent 0 ''Bob'')) 0) ''Bob'' = Some []"
proof -
  have h1: "cconnections (agent_at alice_bob 0) ''Bob'' = Some 0"
    and h2: "c_queues (cconnect_at alice_bob 0) ''Bob'' = Some []"
    by (simp_all add: example_defs)
  have h3: "c_queues (cconnect_at classical_sent 0) ''Bob'' = Some (([1], pulse_length_default * 512) # [])"
    by (simp add: run_defs example_defs)
  have l: "c_length (cconnect_at classical_sent 0) / signal_speed = 1"
    by (simp add: run_defs example_defs signal_speed_def)
  from classical_delay_amended [of alice_bob 0 "''Bob''" 0 "[]" cpython_getsizeof "[1]"
      classical_sent 0 "''Bob''" "[1]" "pulse_length_default * 512" "[]"] h1 h2 h3 l
  show ?thesis
    by (simp add: cpython_getsizeof_def classical_sent_def)
qed

text \<open>
  C7. \<^verbatim>\<open>QConnect.get\<close> merges the payload of the entry it takes into the tokens of the
  receiving agent as a set: afterwards the agent owns exactly the union, each token
  once. When every token of the payload was owned already, the owned set is as before
  and the list holds as many tokens as the set has elements.
\<close>

theorem get_merge_is_set_union:
  assumes "q_queues (qconnect_at w c) (name (agent_at w b)) = Some ((qs, devs, sd, st) # queue)"
  shows "set (qubits (agent_at (snd (QConnect_get w c (AgentObj b))) b)) =
           set qs \<union> set (qubits (agent_at w b)) \<and>
         distinct (qubits (agent_at (snd (QConnect_get w c (AgentObj b))) b)) \<and>
         (set qs \<subseteq> set (qubits (agent_at w b)) \<longrightarrow>
            set (qubits (agent_at (snd (QConnect_get w c (AgentObj b))) b)) =
              set (qubits (agent_at w b)) \<and>
            length (qubits (agent_at (snd (QConnect_get w c (AgentObj b))) b)) =
              card (set (qubits (agent_at w b))))"
proof -
  have "qubits (agent_at (snd (QConnect_get w c (AgentObj b))) b) =
          list_of_set (set qs \<union> set (qubits (agent_at w b)))"
    using assms
    by (simp add: QConnect_get_def Let_def split_beta set_program_def set_agent_def
        set_qconnect_def split: option.splits)
  moreover have "finite (set qs \<union> set (qubits (agent_at w b)))" by simp
  ultimately show ?thesis
    using list_of_set_props [of "set qs \<union> set (qubits (agent_at w b))"]
    by (auto simp: Un_absorb1)
qed

theorem get_merge_is_set_union_witness:
  "q_queues (qconnect_at redelivery 0) (name (agent_at redelivery 1)) =
     Some [([1], \<lparr>transit = Own [instr_device ''t1'' 1, instr_device ''t2'' 2],
                    target = TargetDevicesOf 1\<rparr>, pulse_length_default, 0)] \<and>
   qubits (agent_at redelivery 1) = [0, 1] \<and>
   set [1] \<subseteq> set (qubits (agent_at redelivery 1)) \<and>
   set (qubits (agent_at (snd (QConnect_get redelivery 0 (AgentObj 1))) 1)) = {0, 1} \<and>
   distinct (qubits (agent_at (snd (QConnect_get redelivery 0 (AgentObj 1))) 1)) \<and>
   length (qubits (agent_at (snd (QConnect_get redelivery 0 (AgentObj 1))) 1)) = 2"
proof -
  let ?devs = "\<lparr>transit = Own [instr_device ''t1'' 1, instr_device ''t2'' 2],
                 target = TargetDevicesOf 1\<rparr>"
  have q: "q_queues (qconnect_at redelivery 0) (name (agent_at redelivery 1)) =
     Some (([1], ?devs, pulse_length_default, 0) # [])"
    and o: "qubits (agent_at redelivery 1) = [0, 1]"
    by (simp_all add: redelivery_def run_defs example_defs)
  from get_merge_is_set_union [OF q] q o show ?thesis
    by (auto simp: insert_commute)
qed

text \<open>
  C8. For two agents with different names (the specification has names unique within a
  simulation; with equal names the second entry of each dictionary replaces the first):
  \<^verbatim>\<open>QConnect.__init__\<close> stores the transit list under the name of \<^verbatim>\<open>agent_one\<close> and its
  reverse under the name of \<^verbatim>\<open>agent_two\<close>. Tokens put by \<^verbatim>\<open>agent_one\<close> pass, at the get
  of \<^verbatim>\<open>agent_two\<close>, the transit list in its order and then the target devices of
  \<^verbatim>\<open>agent_two\<close>; tokens put by \<^verbatim>\<open>agent_two\<close> pass the reversed transit list and then the
  target devices of \<^verbatim>\<open>agent_one\<close>. The order shows in the program: each device is
  applied to the program the one before it has left.
\<close>

theorem transit_chains_by_direction:
  assumes "name (agent_at w a1) \<noteq> name (agent_at w a2)"
  shows "q_transit_devices (qconnect_at (QConnect_init w c a1 a2 D) c) (name (agent_at w a1)) =
           Some (Own D) \<and>
         q_transit_devices (qconnect_at (QConnect_init w c a1 a2 D) c) (name (agent_at w a2)) =
           Some (Own (rev D)) \<and>
         (\<exists>d w2 d' w3.
           QConnect_put (QConnect_init w c a1 a2 D) c (name (agent_at w a1)) (name (agent_at w a2))
             qs (Some t) = (Returns d, w2) \<and>
           QConnect_get w2 c (AgentObj a2) = (Returns (qs, d', t), w3) \<and>
           program_at w3 (program (agent_at w a2)) =
             fold (\<lambda>device p. snd (device p qs)) (D @ target_devices (agent_at w a2))
               (program_at w2 (program (agent_at w a2)))) \<and>
         (\<exists>d w2 d' w3.
           QConnect_put (QConnect_init w c a1 a2 D) c (name (agent_at w a2)) (name (agent_at w a1))
             qs (Some t) = (Returns d, w2) \<and>
           QConnect_get w2 c (AgentObj a1) = (Returns (qs, d', t), w3) \<and>
           program_at w3 (program (agent_at w a1)) =
             fold (\<lambda>device p. snd (device p qs)) (rev D @ target_devices (agent_at w a1))
               (program_at w2 (program (agent_at w a1))))"
proof -
  let ?w1 = "QConnect_init w c a1 a2 D"
  let ?n1 = "name (agent_at w a1)" and ?n2 = "name (agent_at w a2)"
  note cm = QConnect_init_qconnect [of w c a1 a2 D]
  have dir: "\<exists>d w2 d' w3.
           QConnect_put ?w1 c s g qs (Some t) = (Returns d, w2) \<and>
           QConnect_get w2 c (AgentObj b) = (Returns (qs, d', t), w3) \<and>
           program_at w3 (program (agent_at w b)) =
             fold (\<lambda>device p. snd (device p qs)) (T @ target_devices (agent_at w b))
               (program_at w2 (program (agent_at w b)))"
    if s: "q_source_devices (qconnect_at ?w1 c) s = Some (SourceDevicesOf a)"
      and tr: "q_transit_devices (qconnect_at ?w1 c) s = Some (Own T)"
      and tg: "q_target_devices (qconnect_at ?w1 c) g = Some (TargetDevicesOf b)"
      and sa: "q_agents (qconnect_at ?w1 c) s = Some a"
      and ga: "q_agents (qconnect_at ?w1 c) g = Some b"
      and q: "q_queues (qconnect_at ?w1 c) g = Some []"
      and g: "g = name (agent_at w b)"
    for s g a b T
  proof -
    let ?run = "source_run ?w1 (SourceDevicesOf a) (program (agent_at ?w1 a)) qs"
    let ?d = "fst ?run * real (length qs)"
    let ?e = "(qs, \<lparr>transit = Own T, target = TargetDevicesOf b\<rparr>, ?d, t)"
    let ?c2 = "(qconnect_at ?w1 c)\<lparr>q_queues := (q_queues (qconnect_at ?w1 c))(g \<mapsto> [] @ [?e])\<rparr>"
    let ?w2 = "set_qconnect c ?c2 (set_program (program (agent_at ?w1 a)) (snd ?run) ?w1)"
    have p: "QConnect_put ?w1 c s g qs (Some t) = (Returns ?d, ?w2)"
      by (rule QConnect_put_Returns [OF s tr tg sa q])
    have c2: "qconnect_at ?w2 c = ?c2"
      by (simp add: set_qconnect_def)
    have nb: "name (agent_at ?w2 b) = g"
      by (simp add: set_qconnect_def set_program_def QConnect_init_agent g)
    have "q_queues ?c2 g = Some (?e # [])"
      by simp
    then have q2: "q_queues (qconnect_at ?w2 c) (name (agent_at ?w2 b)) = Some (?e # [])"
      unfolding nb c2 .
    have "q_agents ?c2 g = Some b"
      using ga by simp
    then have r2: "q_agents (qconnect_at ?w2 c) (name (agent_at ?w2 b)) = Some b"
      unfolding nb c2 .
    note gt = QConnect_get_Returns [OF q2 r2]
    have dr: "deref ?w2 (transit \<lparr>transit = Own T, target = TargetDevicesOf b\<rparr>) @
              deref ?w2 (target \<lparr>transit = Own T, target = TargetDevicesOf b\<rparr>) =
              T @ target_devices (agent_at w b)"
      by (simp add: set_qconnect_def set_program_def QConnect_init_agent)
    have pb: "program (agent_at ?w2 b) = program (agent_at w b)"
      by (simp add: set_qconnect_def set_program_def QConnect_init_agent)
    let ?P = "fold (\<lambda>device p. snd (device p qs)) (T @ target_devices (agent_at w b))
               (program_at ?w2 (program (agent_at w b)))"
    from gt obtain d' w' where g1: "QConnect_get ?w2 c (AgentObj b) =
        (Returns (qs, d', t), set_program (program (agent_at w b)) ?P w')"
      unfolding dr pb by blast
    have "program_at (set_program (program (agent_at w b)) ?P w') (program (agent_at w b)) = ?P"
      by (simp add: set_program_def)
    with p g1 show ?thesis by blast
  qed
  have t1: "q_transit_devices (qconnect_at ?w1 c) ?n1 = Some (Own D)"
    and t2: "q_transit_devices (qconnect_at ?w1 c) ?n2 = Some (Own (rev D))"
    using assms by (simp_all add: cm)
  have d12: "\<exists>d w2 d' w3.
           QConnect_put ?w1 c ?n1 ?n2 qs (Some t) = (Returns d, w2) \<and>
           QConnect_get w2 c (AgentObj a2) = (Returns (qs, d', t), w3) \<and>
           program_at w3 (program (agent_at w a2)) =
             fold (\<lambda>device p. snd (device p qs)) (D @ target_devices (agent_at w a2))
               (program_at w2 (program (agent_at w a2)))"
    using assms by (intro dir [of ?n1 a1 D ?n2 a2]) (simp_all add: cm)
  have d21: "\<exists>d w2 d' w3.
           QConnect_put ?w1 c ?n2 ?n1 qs (Some t) = (Returns d, w2) \<and>
           QConnect_get w2 c (AgentObj a1) = (Returns (qs, d', t), w3) \<and>
           program_at w3 (program (agent_at w a1)) =
             fold (\<lambda>device p. snd (device p qs)) (rev D @ target_devices (agent_at w a1))
               (program_at w2 (program (agent_at w a1)))"
    using assms by (intro dir [of ?n2 a2 "rev D" ?n1 a1]) (simp_all add: cm)
  from t1 t2 d12 d21 show ?thesis by blast
qed

theorem transit_chains_by_direction_witness:
  "name (agent_at alice_bob 0) \<noteq> name (agent_at alice_bob 1) \<and>
   q_transit_devices (qconnect_at (QConnect_init alice_bob 2 0 1 [instr_device ''t1'' 1, instr_device ''t2'' 2]) 2) ''Alice'' =
     Some (Own [instr_device ''t1'' 1, instr_device ''t2'' 2]) \<and>
   q_transit_devices (qconnect_at (QConnect_init alice_bob 2 0 1 [instr_device ''t1'' 1, instr_device ''t2'' 2]) 2) ''Bob'' =
     Some (Own [instr_device ''t2'' 2, instr_device ''t1'' 1]) \<and>
   (\<exists>d w2 d' w3.
      QConnect_put (QConnect_init alice_bob 2 0 1 [instr_device ''t1'' 1, instr_device ''t2'' 2]) 2 ''Alice'' ''Bob'' [0] (Some 0) = (Returns d, w2) \<and>
      QConnect_get w2 2 (AgentObj 1) = (Returns ([0], d', 0), w3) \<and>
      program_at w3 1 = program_at w2 1 @ [''t1'', ''t2'', ''g1'']) \<and>
   (\<exists>d w2 d' w3.
      QConnect_put (QConnect_init alice_bob 2 0 1 [instr_device ''t1'' 1, instr_device ''t2'' 2]) 2 ''Bob'' ''Alice'' [0] (Some 0) = (Returns d, w2) \<and>
      QConnect_get w2 2 (AgentObj 0) = (Returns ([0], d', 0), w3) \<and>
      program_at w3 0 = program_at w2 0 @ [''t2'', ''t1''])"
proof -
  have h: "name (agent_at alice_bob 0) \<noteq> name (agent_at alice_bob 1)"
    and n: "name (agent_at alice_bob 0) = ''Alice''" "name (agent_at alice_bob 1) = ''Bob''"
    and p: "program (agent_at alice_bob 0) = 0" "program (agent_at alice_bob 1) = 1"
    and t: "target_devices (agent_at alice_bob 0) = []"
           "target_devices (agent_at alice_bob 1) = [instr_device ''g1'' 4]"
    by (simp_all add: example_defs)
  from transit_chains_by_direction [OF h, of 2 "[instr_device ''t1'' 1, instr_device ''t2'' 2]" "[0]" 0]
  show ?thesis
    unfolding n p t by (simp add: instr_device_def)
qed

text \<open>
  C9. \<^verbatim>\<open>add_device\<close> appends the device to the agent's source devices for the role
  \<^verbatim>\<open>'source'\<close> and to its target devices for the role \<^verbatim>\<open>'target'\<close>; for any other
  role it raises an exception and the store, with both lists, is as before.
\<close>

theorem add_device_roles:
  "add_device w self ''source'' d =
     (Returns (), set_agent self
        ((agent_at w self)\<lparr>source_devices := source_devices (agent_at w self) @ [d]\<rparr>) w) \<and>
   add_device w self ''target'' d =
     (Returns (), set_agent self
        ((agent_at w self)\<lparr>target_devices := target_devices (agent_at w self) @ [d]\<rparr>) w) \<and>
   (role \<noteq> ''source'' \<and> role \<noteq> ''target'' \<longrightarrow>
      (\<exists>msg. add_device w self role d = (Raises (Exception msg), w)))"
  by (simp add: add_device_def Let_def)

theorem add_device_roles_witness:
  "source_devices (agent_at (snd (add_device alice_bob 1 ''source'' (instr_device ''s'' 1))) 1) =
     [instr_device ''s'' 1] \<and>
   target_devices (agent_at (snd (add_device alice_bob 1 ''source'' (instr_device ''s'' 1))) 1) =
     [instr_device ''g1'' 4] \<and>
   target_devices (agent_at (snd (add_device alice_bob 1 ''target'' (instr_device ''s'' 1))) 1) =
     [instr_device ''g1'' 4, instr_device ''s'' 1] \<and>
   source_devices (agent_at (snd (add_device alice_bob 1 ''target'' (instr_device ''s'' 1))) 1) = [] \<and>
   ''transit'' \<noteq> ''source'' \<and> ''transit'' \<noteq> ''target'' \<and>
   (\<exists>msg. add_device alice_bob 1 ''transit'' (instr_device ''s'' 1) =
            (Raises (Exception msg), alice_bob))"
proof -
  have s: "source_devices (agent_at alice_bob 1) = []"
    and t: "target_devices (agent_at alice_bob 1) = [instr_device ''g1'' 4]"
    by (simp_all add: example_defs)
  from add_device_roles [of alice_bob 1 "instr_device ''s'' 1" "''transit''"] s t
  show ?thesis by (simp add: set_agent_def)
qed

text \<open>
  C10. Whatever a call of \<^verbatim>\<open>qsend\<close> does, the sending agent's clock, program, source
  and target devices, its two registries of connections and its name are as before, and
  so is the content of every program: of the agent's fields only the list of tokens can
  differ. No delay is added to the sender's clock.
\<close>

theorem qsend_frame:
  "time (agent_at (snd (qsend w self tgt qs)) self) = time (agent_at w self) \<and>
   program (agent_at (snd (qsend w self tgt qs)) self) = program (agent_at w self) \<and>
   source_devices (agent_at (snd (qsend w self tgt qs)) self) = source_devices (agent_at w self) \<and>
   target_devices (agent_at (snd (qsend w self tgt qs)) self) = target_devices (agent_at w self) \<and>
   qconnections (agent_at (snd (qsend w self tgt qs)) self) = qconnections (agent_at w self) \<and>
   cconnections (agent_at (snd (qsend w self tgt qs)) self) = cconnections (agent_at w self) \<and>
   name (agent_at (snd (qsend w self tgt qs)) self) = name (agent_at w self) \<and>
   program_at (snd (qsend w self tgt qs)) = program_at w"
  by (simp add: qsend_cases set_agent_def)

end
